theory Spec2Isabelle
  imports Complex_Main "HOL-Library.Char_ord" "HOL-Library.List_Lexorder"
    "HOL-Library.Product_Lexorder"
begin

section \<open>Data model\<close>

text \<open>
  The module \<^verbatim>\<open>auxiliary.py\<close> is glue over pandas and matplotlib. The embedding keeps
  the module's own control flow (branches, loops, local variables, the order of the
  library calls and their arguments) and models the libraries as far as the module
  relies on them: frames with named columns, the group-by/value-counts/unstack
  pipeline, the file lookup of \<^verbatim>\<open>read_pickle\<close>, and rendering calls that are recorded
  in a trace.

  A cell is an integer, a string or a float. Floats are modelled as exact rationals;
  rounding is not modelled. Null cells are not part of the data model. A pickled file
  holds a frame.
\<close>

datatype cell = IntC int | StrC string | NumC rat

text \<open>
  A DataFrame: its column labels and its rows, each row giving a cell per label. A label
  is a cell as well: pandas labels columns with strings, or with integers by default.
\<close>

record dataframe =
  columns :: "cell list"
  rows :: "(cell \<Rightarrow> cell) list"

text \<open>
  The frame that \<^verbatim>\<open>unstack\<close> builds from a value-counts series: one row per group
  key, one column per category, \<open>None\<close> (NaN) where a category does not occur in a group.
\<close>

record table =
  tab_index :: "cell list"
  tab_columns :: "cell list"
  tab_values :: "rat option list list"

datatype exn =
    KeyError cell
  | AttributeError string
  | UndefinedVariableError string
  | TypeError string
  | IndexError string
  | FileNotFoundError string
  | UnboundLocalError string
  | LibraryError string

text \<open>Arguments of rendering calls, and the calls themselves.\<close>

datatype arg =
    ABool bool
  | AInt int
  | ANum rat
  | AStr string
  | AStrs "string list"
  | APair rat rat
  | AHandles "nat list"
  | AAxis nat

type_synonym kwargs = "(string \<times> arg) list"

datatype event =
    Subplots nat nat kwargs
  | Read_pickle string
  | Plot_bar table kwargs
  | Plot_frame dataframe kwargs
  | Axes_call nat string "arg list" kwargs
  | Axes_plot nat "cell list" kwargs
  | Pyplot_call string "arg list" kwargs
  | Delaxes nat
  | Raised exn

text \<open>
  The world a call runs in. \<open>files\<close> is what \<^verbatim>\<open>pd.read_pickle\<close> finds on disk;
  \<open>legend_handles_labels\<close> is what the current axes report as their legend entries
  after the calls made so far; \<open>lib_error\<close> says whether the plotting library rejects a
  call (after the calls made so far); \<open>mixed_value_counts\<close> and \<open>mixed_unstack\<close> are
  what pandas does with labels of mixed types (it may raise, or order them in some way):
  these five are parameters, nothing is assumed of them. \<open>store\<close> holds the DataFrame objects by reference, \<open>next_ref\<close> is the next free
  reference, and \<open>trace\<close> lists the effectful library calls in the order they were made,
  with \<open>Raised e\<close> after a call that raised \<open>e\<close>.
\<close>

record world =
  files :: "string \<rightharpoonup> dataframe"
  legend_handles_labels :: "event list \<Rightarrow> nat list \<times> string list"
  lib_error :: "event list \<Rightarrow> event \<Rightarrow> exn option"
  mixed_value_counts ::
    "dataframe \<Rightarrow> string \<Rightarrow> string \<Rightarrow> bool \<Rightarrow> exn + ((cell \<times> cell) \<times> rat) list"
  mixed_unstack :: "((cell \<times> cell) \<times> rat) list \<Rightarrow> exn + table"
  store :: "nat \<Rightarrow> dataframe"
  next_ref :: nat
  trace :: "event list"

section \<open>Computations: state, exceptions, loops\<close>

type_synonym 'a py = "world \<Rightarrow> (exn + 'a) \<times> world"

definition ret :: "'a \<Rightarrow> 'a py" where
  "ret x = (\<lambda>w. (Inr x, w))"

definition pybind :: "'a py \<Rightarrow> ('a \<Rightarrow> 'b py) \<Rightarrow> 'b py" where
  "pybind m f = (\<lambda>w. case m w of (Inl e, w') \<Rightarrow> (Inl e, w') | (Inr x, w') \<Rightarrow> f x w')"

text \<open>An exception raised inside a library call is recorded in the trace.\<close>

definition lib_raise :: "exn \<Rightarrow> 'a py" where
  "lib_raise e = (\<lambda>w. (Inl e, w\<lparr>trace := trace w @ [Raised e]\<rparr>))"

text \<open>An exception raised by the interpreter in the module's own code.\<close>

definition interp_raise :: "exn \<Rightarrow> 'a py" where
  "interp_raise e = (\<lambda>w. (Inl e, w))"

text \<open>An effectful library call: recorded, then either performed or rejected.\<close>

definition emit :: "event \<Rightarrow> unit py" where
  "emit ev = (\<lambda>w. case lib_error w (trace w) ev of
      None \<Rightarrow> (Inr (), w\<lparr>trace := trace w @ [ev]\<rparr>)
    | Some e \<Rightarrow> (Inl e, w\<lparr>trace := trace w @ [ev, Raised e]\<rparr>))"

text \<open>An effectful library call that is made and raises.\<close>

definition emit_raise :: "event \<Rightarrow> exn \<Rightarrow> 'a py" where
  "emit_raise ev e = (\<lambda>w. (Inl e, w\<lparr>trace := trace w @ [ev, Raised e]\<rparr>))"

text \<open>A library call without effect whose outcome the world decides.\<close>

definition lib_result :: "(world \<Rightarrow> exn + 'a) \<Rightarrow> 'a py" where
  "lib_result f = (\<lambda>w. case f w of
      Inl e \<Rightarrow> (Inl e, w\<lparr>trace := trace w @ [Raised e]\<rparr>)
    | Inr x \<Rightarrow> (Inr x, w))"

definition alloc :: "dataframe \<Rightarrow> nat py" where
  "alloc df = (\<lambda>w. (Inr (next_ref w),
     w\<lparr>store := (store w)(next_ref w := df), next_ref := Suc (next_ref w)\<rparr>))"

definition deref :: "nat \<Rightarrow> dataframe py" where
  "deref r = (\<lambda>w. (Inr (store w r), w))"

text \<open>\<^verbatim>\<open>for x in xs: s = body(x, s)\<close>: the loop stops at the first exception.\<close>

fun for_loop :: "'a list \<Rightarrow> ('a \<Rightarrow> 's \<Rightarrow> 's py) \<Rightarrow> 's \<Rightarrow> 's py" where
  "for_loop [] body s = ret s"
| "for_loop (x # xs) body s = pybind (body x s) (for_loop xs body)"

section \<open>The library calls the module makes\<close>

subsection \<open>pandas\<close>

text \<open>
  Labels of one type (all integers, all strings or all floats) are ordered by value;
  \<open>sorted_labels\<close> is only used on such labels.
\<close>

fun cell_key :: "cell \<Rightarrow> nat \<times> rat \<times> string" where
  "cell_key (IntC i) = (0, of_int i, [])"
| "cell_key (NumC q) = (0, q, [])"
| "cell_key (StrC s) = (1, 0, s)"

fun same_type :: "cell \<Rightarrow> cell \<Rightarrow> bool" where
  "same_type (IntC _) (IntC _) = True"
| "same_type (StrC _) (StrC _) = True"
| "same_type (NumC _) (NumC _) = True"
| "same_type _ _ = False"

fun one_type :: "cell list \<Rightarrow> bool" where
  "one_type [] = True"
| "one_type (x # xs) = list_all (same_type x) xs"

definition sorted_labels :: "cell list \<Rightarrow> cell list" where
  "sorted_labels xs = sort_key cell_key (remdups xs)"

text \<open>\<^verbatim>\<open>df.query("col == @v")\<close>: a new frame with the rows whose \<open>col\<close> equals \<open>v\<close>.\<close>

definition query_eq :: "nat \<Rightarrow> string \<Rightarrow> cell \<Rightarrow> nat py" where
  "query_eq r col v = pybind (deref r) (\<lambda>df.
     if StrC col \<in> set (columns df)
     then alloc (df\<lparr>rows := filter (\<lambda>row. row (StrC col) = v) (rows df)\<rparr>)
     else lib_raise (UndefinedVariableError col))"

text \<open>\<^verbatim>\<open>df.groupby(key)\<close>: the group-by object refers to the frame.\<close>

definition groupby :: "nat \<Rightarrow> string \<Rightarrow> (nat \<times> string) py" where
  "groupby r key = pybind (deref r) (\<lambda>df.
     if StrC key \<in> set (columns df) then ret (r, key)
     else lib_raise (KeyError (StrC key)))"

text \<open>\<^verbatim>\<open>grouped.col\<close>: attribute access selects the column of the grouped frame.\<close>

definition groupby_getattr :: "nat \<times> string \<Rightarrow> string \<Rightarrow> (nat \<times> string \<times> string) py" where
  "groupby_getattr g col = pybind (deref (fst g)) (\<lambda>df.
     if StrC col \<in> set (columns df) then ret (fst g, snd g, col)
     else lib_raise (AttributeError col))"

text \<open>
  \<^verbatim>\<open>SeriesGroupBy.value_counts(normalize)\<close>: for each group key in sorted order, each
  value that occurs in the group with its count (or, normalised, its count divided by
  the size of the group), larger counts first. This is \<open>value_counts_frame\<close>, for keys
  of one type and values of one type; otherwise the outcome is the world's.
\<close>

definition group_values :: "dataframe \<Rightarrow> string \<Rightarrow> string \<Rightarrow> cell \<Rightarrow> cell list" where
  "group_values df key col k =
     map (\<lambda>row. row (StrC col)) (filter (\<lambda>row. row (StrC key) = k) (rows df))"

definition value_counts_frame ::
  "dataframe \<Rightarrow> string \<Rightarrow> string \<Rightarrow> bool \<Rightarrow> ((cell \<times> cell) \<times> rat) list" where
  "value_counts_frame df key col normalise =
     concat (map (\<lambda>k.
         let vs = group_values df key col k in
         map (\<lambda>v. ((k, v),
                if normalise then of_nat (count_list vs v) / of_nat (length vs)
                else of_nat (count_list vs v)))
           (sort_key (\<lambda>v. - int (count_list vs v)) (sorted_labels vs)))
       (sorted_labels (map (\<lambda>row. row (StrC key)) (rows df))))"

definition value_counts ::
  "nat \<times> string \<times> string \<Rightarrow> bool \<Rightarrow> ((cell \<times> cell) \<times> rat) list py" where
  "value_counts sg normalise = pybind (deref (fst sg)) (\<lambda>df.
     let key = fst (snd sg); col = snd (snd sg) in
     if one_type (map (\<lambda>row. row (StrC key)) (rows df)) \<and>
        one_type (map (\<lambda>row. row (StrC col)) (rows df))
     then ret (value_counts_frame df key col normalise)
     else lib_result (\<lambda>w. mixed_value_counts w df key col normalise))"

text \<open>
  \<^verbatim>\<open>series.unstack()\<close>: the inner index level becomes the columns. This is
  \<open>unstack_series\<close>, for labels of one type on each level.
\<close>

definition unstack_series :: "((cell \<times> cell) \<times> rat) list \<Rightarrow> table" where
  "unstack_series s =
     (let ks = sorted_labels (map (\<lambda>e. fst (fst e)) s);
          cs = sorted_labels (map (\<lambda>e. snd (fst e)) s)
      in \<lparr>tab_index = ks, tab_columns = cs,
          tab_values = map (\<lambda>k. map (\<lambda>c. map_of s (k, c)) cs) ks\<rparr>)"

definition unstack :: "((cell \<times> cell) \<times> rat) list \<Rightarrow> table py" where
  "unstack s =
     (if one_type (map (\<lambda>e. fst (fst e)) s) \<and> one_type (map (\<lambda>e. snd (fst e)) s)
      then ret (unstack_series s)
      else lib_result (\<lambda>w. mixed_unstack w s))"

text \<open>
  \<^verbatim>\<open>table.plot.bar(**kw)\<close>: the call is made; on a frame without columns it raises, as
  there is no numeric data to plot.
\<close>

definition plot_bar :: "table \<Rightarrow> kwargs \<Rightarrow> unit py" where
  "plot_bar t kw =
     (if tab_columns t = []
      then emit_raise (Plot_bar t kw) (TypeError ''no numeric data to plot'')
      else emit (Plot_bar t kw))"

text \<open>\<^verbatim>\<open>df.plot(**kw)\<close> on a frame held in the store.\<close>

definition plot_frame :: "nat \<Rightarrow> kwargs \<Rightarrow> unit py" where
  "plot_frame r kw = pybind (deref r) (\<lambda>df.
     if columns df = []
     then emit_raise (Plot_frame df kw) (TypeError ''no numeric data to plot'')
     else emit (Plot_frame df kw))"

text \<open>\<^verbatim>\<open>pd.read_pickle(path)\<close>: the frame stored under the path, as a new object.\<close>

definition read_pickle :: "string \<Rightarrow> nat py" where
  "read_pickle path = (\<lambda>w.
     case files w path of
       None \<Rightarrow> (Inl (FileNotFoundError path),
                 w\<lparr>trace := trace w @ [Read_pickle path, Raised (FileNotFoundError path)]\<rparr>)
     | Some df \<Rightarrow> pybind (emit (Read_pickle path)) (\<lambda>_. alloc df) w)"

text \<open>\<^verbatim>\<open>df.columns\<close> and \<^verbatim>\<open>df[col]\<close>.\<close>

definition df_columns :: "nat \<Rightarrow> cell list py" where
  "df_columns r = pybind (deref r) (\<lambda>df. ret (columns df))"

definition df_getitem :: "nat \<Rightarrow> cell \<Rightarrow> cell list py" where
  "df_getitem r col = pybind (deref r) (\<lambda>df.
     if col \<in> set (columns df) then ret (map (\<lambda>row. row col) (rows df))
     else lib_raise (KeyError col))"

subsection \<open>matplotlib\<close>

text \<open>\<^verbatim>\<open>plt.subplots(nrows, ncols, **kw)\<close> returns the axes; the model returns their number.\<close>

definition subplots :: "nat \<Rightarrow> nat \<Rightarrow> kwargs \<Rightarrow> nat py" where
  "subplots nrows ncols kw = pybind (emit (Subplots nrows ncols kw)) (\<lambda>_. ret (nrows * ncols))"

text \<open>\<^verbatim>\<open>ax[i]\<close> on an array of \<open>n\<close> axes.\<close>

definition axes_item :: "nat \<Rightarrow> nat \<Rightarrow> nat py" where
  "axes_item n i = (if i < n then ret i else lib_raise (IndexError ''index out of bounds''))"

text \<open>\<^verbatim>\<open>plt.gca().get_legend_handles_labels()\<close>: a query of the library's state.\<close>

definition gca_legend_handles_labels :: "(nat list \<times> string list) py" where
  "gca_legend_handles_labels = (\<lambda>w. (Inr (legend_handles_labels w (trace w)), w))"

subsection \<open>Python built-ins\<close>

text \<open>Reading a local variable that no branch has assigned.\<close>

definition local_var :: "string \<Rightarrow> 'a option \<Rightarrow> 'a py" where
  "local_var name v =
     (case v of None \<Rightarrow> interp_raise (UnboundLocalError name) | Some x \<Rightarrow> ret x)"

text \<open>
  A \<^verbatim>\<open>dict\<close> keeps its keys in the order of their first insertion; storing under an
  existing key replaces the value in place.
\<close>

fun dict_setitem :: "'k \<Rightarrow> 'v \<Rightarrow> ('k \<times> 'v) list \<Rightarrow> ('k \<times> 'v) list" where
  "dict_setitem k v [] = [(k, v)]"
| "dict_setitem k v ((k', v') # d) =
     (if k' = k then (k, v) # d else (k', v') # dict_setitem k v d)"

definition dict_of :: "('k \<times> 'v) list \<Rightarrow> ('k \<times> 'v) list" where
  "dict_of ps = foldl (\<lambda>d (k, v). dict_setitem k v d) [] ps"

definition dict_getitem :: "(string \<times> 'v) list \<Rightarrow> string \<Rightarrow> 'v py" where
  "dict_getitem d k = (case map_of d k of None \<Rightarrow> interp_raise (KeyError (StrC k)) | Some v \<Rightarrow> ret v)"

text \<open>
  \<^verbatim>\<open>str.capitalize\<close> and \<^verbatim>\<open>str.replace("_", " ")\<close>, on ASCII letters (other bytes are
  left as they are).
\<close>

definition ascii_upper :: "char \<Rightarrow> char" where
  "ascii_upper c =
     (case map_of (zip ''abcdefghijklmnopqrstuvwxyz'' ''ABCDEFGHIJKLMNOPQRSTUVWXYZ'') c of
        None \<Rightarrow> c | Some u \<Rightarrow> u)"

definition ascii_lower :: "char \<Rightarrow> char" where
  "ascii_lower c =
     (case map_of (zip ''ABCDEFGHIJKLMNOPQRSTUVWXYZ'' ''abcdefghijklmnopqrstuvwxyz'') c of
        None \<Rightarrow> c | Some l \<Rightarrow> l)"

fun capitalize :: "string \<Rightarrow> string" where
  "capitalize [] = []"
| "capitalize (c # cs) = ascii_upper c # map ascii_lower cs"

definition replace_underscore :: "string \<Rightarrow> string" where
  "replace_underscore s = map (\<lambda>c. if c = CHR ''_'' then CHR '' '' else c) s"

text \<open>
  \<^verbatim>\<open>label.capitalize()\<close> on a column label: a label that is not a string has no such
  method, and the attribute lookup raises in the module's own code.
\<close>

definition label_capitalize :: "cell \<Rightarrow> string py" where
  "label_capitalize label =
     (case label of
        StrC s \<Rightarrow> ret (capitalize s)
      | IntC _ \<Rightarrow> interp_raise (AttributeError ''capitalize'')
      | NumC _ \<Rightarrow> interp_raise (AttributeError ''capitalize''))"

section \<open>The plotting functions\<close>

text \<open>
  A frame argument is the reference of the caller's object. Every function returns
  \<open>Inr ()\<close> (Python's \<^verbatim>\<open>None\<close>) or the exception that ended the call.
\<close>

definition plot_fishing_grounds :: "nat \<Rightarrow> unit py" where
  "plot_fishing_grounds df =
     pybind (subplots 1 2 [(''figsize'', APair 10 4)]) (\<lambda>ax.
     pybind (for_loop (List.enumerate 0 [''rich'', ''poor'']) (\<lambda>(i, observable) _.
         pybind (query_eq df ''Fishing_Grounds'' (StrC observable)) (\<lambda>q.
         pybind (groupby q ''Period'') (\<lambda>g.
         pybind (groupby_getattr g ''Choice'') (\<lambda>sg.
         pybind (value_counts sg True) (\<lambda>vc.
         pybind (unstack vc) (\<lambda>t.
         pybind (axes_item ax i) (\<lambda>a.
         pybind (plot_bar t
                   [(''width'', ANum (4 / 10)), (''stacked'', ABool True), (''rot'', AInt 0),
                    (''legend'', ABool False), (''ax'', AAxis a)]) (\<lambda>_.
         pybind (axes_item ax i) (\<lambda>a.
         pybind (emit (Axes_call a ''set_title''
                   [AStr (''Fishing grounds: '' @ observable)] [(''pad'', AInt 10)])) (\<lambda>_.
         pybind (axes_item ax i) (\<lambda>a.
         emit (Axes_call a ''xaxis.label.set_visible'' [ABool False] [])))))))))))) ()) (\<lambda>_.
     pybind (emit (Pyplot_call ''legend'' []
               [(''loc'', AStr ''lower center''),
                (''bbox_to_anchor'', APair (- 15 / 100) (- 3 / 10)), (''ncol'', AInt 2)])) (\<lambda>_.
     pybind (emit (Pyplot_call ''suptitle''
               [AStr (''Robinson'' @ [CHR 0x27] @ ''s choices by period'')]
               [(''y'', ANum (105 / 100))])) (\<lambda>_.
     emit (Pyplot_call ''show'' [] [])))))"

definition plot_choice_shares :: "nat \<Rightarrow> bool \<Rightarrow> unit py" where
  "plot_choice_shares df friday =
     (let (color, choices) =
            (if friday then ([''C0'', ''C2'', ''C1''], 3) else ([''C0'', ''C1''], 2))
      in
     pybind (subplots 1 1 []) (\<lambda>ax.
     pybind (groupby df ''Period'') (\<lambda>g.
     pybind (groupby_getattr g ''Choice'') (\<lambda>sg.
     pybind (value_counts sg True) (\<lambda>vc.
     pybind (unstack vc) (\<lambda>t.
     pybind (plot_bar t
               [(''stacked'', ABool True), (''ax'', AAxis 0), (''color'', AStrs color)]) (\<lambda>_.
     pybind (emit (Pyplot_call ''xticks'' [] [(''rotation'', AStr ''horizontal'')])) (\<lambda>_.
     pybind (emit (Pyplot_call ''legend'' []
               [(''loc'', AStr ''lower center''),
                (''bbox_to_anchor'', APair (1 / 2) (- 275 / 1000)),
                (''ncol'', AInt choices)])) (\<lambda>_.
     pybind (emit (Pyplot_call ''show'' [] [])) (\<lambda>_.
     emit (Pyplot_call ''close'' [] [])))))))))))"

definition plot_choice_prob_and_exp_level :: "nat \<Rightarrow> unit py" where
  "plot_choice_prob_and_exp_level df =
     pybind (subplots 1 2 [(''figsize'', APair 10 4)]) (\<lambda>axs.
     pybind (groupby df ''Period'') (\<lambda>g.
     pybind (groupby_getattr g ''Choice'') (\<lambda>sg.
     pybind (value_counts sg True) (\<lambda>vc.
     pybind (unstack vc) (\<lambda>t.
     pybind (axes_item axs 0) (\<lambda>a.
     pybind (plot_bar t
               [(''ax'', AAxis a), (''stacked'', ABool True), (''rot'', AInt 0),
                (''title'', AStr ''Choice Probabilities'')]) (\<lambda>_.
     pybind (groupby df ''Period'') (\<lambda>g.
     pybind (groupby_getattr g ''Experience_Fishing'') (\<lambda>sg.
     pybind (value_counts sg True) (\<lambda>vc.
     pybind (unstack vc) (\<lambda>t.
     pybind (axes_item axs 1) (\<lambda>a.
     pybind (plot_bar t
               [(''ax'', AAxis a), (''stacked'', ABool True), (''rot'', AInt 0),
                (''title'', AStr ''Share of Experience Level per Period''),
                (''cmap'', AStr ''Blues'')]) (\<lambda>_.
     pybind (axes_item axs 0) (\<lambda>a.
     pybind (emit (Axes_call a ''legend'' []
               [(''loc'', AStr ''lower center''),
                (''bbox_to_anchor'', APair (1 / 2) (- 4 / 10)), (''ncol'', AInt 2)])) (\<lambda>_.
     pybind (axes_item axs 1) (\<lambda>a.
     pybind (emit (Axes_call a ''legend'' []
               [(''loc'', AStr ''right''), (''bbox_to_anchor'', APair (13 / 10) (1 / 2)),
                (''ncol'', AInt 1), (''title'', AStr ''Experience'')])) (\<lambda>_.
     emit (Pyplot_call ''show'' [] []))))))))))))))))))"

definition plot_choice_prob :: "nat \<Rightarrow> unit py" where
  "plot_choice_prob df =
     pybind (subplots 1 1 []) (\<lambda>ax.
     pybind (groupby df ''Period'') (\<lambda>g.
     pybind (groupby_getattr g ''Choice'') (\<lambda>sg.
     pybind (value_counts sg True) (\<lambda>vc.
     pybind (unstack vc) (\<lambda>t.
     pybind (plot_bar t [(''stacked'', ABool True), (''ax'', AAxis 0)]) (\<lambda>_.
     pybind (emit (Pyplot_call ''xticks'' [] [(''rotation'', AStr ''horizontal'')])) (\<lambda>_.
     pybind (emit (Pyplot_call ''legend'' []
               [(''loc'', AStr ''lower center''),
                (''bbox_to_anchor'', APair (1 / 2) (- 275 / 1000)), (''ncol'', AInt 2)])) (\<lambda>_.
     pybind (emit (Pyplot_call ''show'' [] [])) (\<lambda>_.
     emit (Pyplot_call ''close'' [] []))))))))))"

text \<open>The path that both loading functions build: \<^verbatim>\<open>f"data/choices_{model}.pkl"\<close>.\<close>

definition pkl_path :: "string \<Rightarrow> string" where
  "pkl_path model = ''data/choices_'' @ model @ ''.pkl''"

text \<open>The body of the loop of \<^verbatim>\<open>plot_choices_kw\<close>, for the local \<open>ax\<close> and one \<open>(i, model)\<close>.\<close>

definition plot_choices_kw_body :: "nat option \<Rightarrow> nat \<times> string \<Rightarrow> unit py" where
  "plot_choices_kw_body ax = (\<lambda>(i, model).
     pybind (read_pickle (pkl_path model)) (\<lambda>df.
     pybind (local_var ''ax'' ax) (\<lambda>n.
     pybind (axes_item n i) (\<lambda>a.
     pybind (plot_frame df
               [(''alpha'', ANum (8 / 10)), (''stacked'', ABool True), (''ax'', AAxis a),
                (''legend'', ABool False), (''kind'', AStr ''area''), (''rot'', AInt 0),
                (''title'', AStr (''Example model: '' @ model)), (''linewidth'', AInt 0)]) (\<lambda>_.
     pybind (axes_item n i) (\<lambda>a.
     pybind (plot_frame df
               [(''stacked'', ABool True), (''ax'', AAxis a), (''legend'', ABool False),
                (''color'', AStr ''white''), (''linewidth'', AInt 1), (''rot'', AInt 0)]) (\<lambda>_.
     pybind (axes_item n i) (\<lambda>a.
     pybind (emit (Axes_call a ''margins'' [] [(''x'', AInt 0)])) (\<lambda>_.
     pybind (axes_item n i) (\<lambda>a.
     pybind (emit (Axes_call a ''spines[right].set_visible'' [ABool False] [])) (\<lambda>_.
     pybind (axes_item n i) (\<lambda>a.
     pybind (emit (Axes_call a ''spines[top].set_visible'' [ABool False] [])) (\<lambda>_.
     pybind gca_legend_handles_labels (\<lambda>(handles, labels).
     let by_label = dict_of (zip labels handles);
         move_left = (if n mod 2 = 1 then - 7 / 10 else - 2 / 10)
     in
     pybind (df_columns df) (\<lambda>cols.
     emit (Pyplot_call ''legend'' [AHandles (map snd by_label), AStrs (map fst by_label)]
             [(''loc'', AStr ''lower center''), (''ncol'', AInt (int (length cols))),
              (''bbox_to_anchor'', APair move_left (- 25 / 100)),
              (''fontsize'', AInt 12)]))))))))))))))))"

definition plot_choices_kw :: "string \<Rightarrow> unit py" where
  "plot_choices_kw example =
     pybind (if example = ''1994''
             then pybind (subplots 1 3 [(''figsize'', APair 15 5)]) (\<lambda>ax.
                  ret (Some ax, Some [''kw_94_one'', ''kw_94_two'', ''kw_94_three'']))
             else ret (None, None)) (\<lambda>(ax, models).
     pybind (if example = ''1997''
             then pybind (subplots 1 2 [(''figsize'', APair 15 5)]) (\<lambda>ax.
                  ret (Some ax, Some [''kw_97_basic'', ''kw_97_extended'']))
             else ret (ax, models)) (\<lambda>(ax, models).
     pybind (local_var ''models'' models) (\<lambda>ms.
     pybind (for_loop (List.enumerate 0 ms) (\<lambda>im _. plot_choices_kw_body ax im) ()) (\<lambda>_.
     emit (Pyplot_call ''show'' [] [])))))"

text \<open>The body of the plotting loop of \<^verbatim>\<open>plot_kw_97_comparison\<close>.\<close>

definition plot_kw_97_comparison_body ::
  "nat \<Rightarrow> (string \<times> nat) list \<Rightarrow> nat \<times> cell \<times> string \<Rightarrow> unit py" where
  "plot_kw_97_comparison_body ax data = (\<lambda>(i, choice, color).
     pybind (axes_item ax i) (\<lambda>a.
     pybind (dict_getitem data ''kw_97_obs'') (\<lambda>d.
     pybind (df_getitem d choice) (\<lambda>s.
     pybind (emit (Axes_plot a s
               [(''linestyle'', AStr ''dashed''), (''color'', AStr ''k''),
                (''label'', AStr ''Observed'')])) (\<lambda>_.
     pybind (axes_item ax i) (\<lambda>a.
     pybind (dict_getitem data ''kw_97_basic'') (\<lambda>d.
     pybind (df_getitem d choice) (\<lambda>s.
     pybind (emit (Axes_plot a s
               [(''linestyle'', AStr ''dotted''), (''alpha'', ANum (8 / 10)),
                (''color'', AStr color), (''label'', AStr ''kw_97_basic'')])) (\<lambda>_.
     pybind (axes_item ax i) (\<lambda>a.
     pybind (dict_getitem data ''kw_97_extended'') (\<lambda>d.
     pybind (df_getitem d choice) (\<lambda>s.
     pybind (emit (Axes_plot a s
               [(''color'', AStr color), (''alpha'', ANum (8 / 10)),
                (''label'', AStr ''kw_97_extended'')])) (\<lambda>_.
     pybind (axes_item ax i) (\<lambda>a.
     pybind (label_capitalize choice) (\<lambda>title.
     pybind (emit (Axes_call a ''set_title'' [AStr (replace_underscore title)] [])) (\<lambda>_.
     pybind (axes_item ax i) (\<lambda>a.
     emit (Axes_call a ''set_xlabel'' [AStr ''Period''] []))))))))))))))))))"

definition plot_kw_97_comparison :: "unit py" where
  "plot_kw_97_comparison =
     (let models = [''kw_97_obs'', ''kw_97_basic'', ''kw_97_extended''];
          colors = [''tab:blue'', ''tab:orange'', ''tab:green'', ''tab:red'', ''tab:purple'']
      in
     pybind (for_loop models (\<lambda>model (df, data).
         pybind (read_pickle (pkl_path model)) (\<lambda>d.
         ret (Some d, dict_setitem model d data))) (None, [])) (\<lambda>(df, data).
     pybind (subplots 2 3 [(''figsize'', APair 15 9)]) (\<lambda>ax.
     pybind (local_var ''df'' df) (\<lambda>d.
     pybind (df_columns d) (\<lambda>cols.
     pybind (for_loop (List.enumerate 0 (zip cols colors))
               (\<lambda>icc _. plot_kw_97_comparison_body ax data icc) ()) (\<lambda>_.
     pybind (axes_item ax 4) (\<lambda>a.
     pybind (emit (Axes_call a ''legend'' []
               [(''loc'', AStr ''lower center''), (''ncol'', AInt 5),
                (''bbox_to_anchor'', APair (- 3 / 10) (- 3 / 10)),
                (''fontsize'', AInt 12)])) (\<lambda>_.
     pybind (axes_item ax 5) (\<lambda>a.
     pybind (emit (Delaxes a)) (\<lambda>_.
     emit (Pyplot_call ''show'' [] [])))))))))))"

section \<open>Observations on runs\<close>

text \<open>The paths of the files that a trace reads (or tries to read), in order.\<close>

fun read_paths :: "event list \<Rightarrow> string list" where
  "read_paths [] = []"
| "read_paths (Read_pickle p # evs) = p # read_paths evs"
| "read_paths (_ # evs) = read_paths evs"

text \<open>
  A computation is faithful to the library when, from every world, it only extends the
  trace, and it ends with the exception \<open>e\<close> exactly when a library call made during
  the run raised \<open>e\<close>.
\<close>

definition faithful :: "'a py \<Rightarrow> bool" where
  "faithful m \<longleftrightarrow> (\<forall>w. \<exists>evs. trace (snd (m w)) = trace w @ evs \<and>
      (\<forall>e. (fst (m w) = Inl e) = (Raised e \<in> set evs)))"

text \<open>A computation whose every run relates the world before to the world after.\<close>

definition steps :: "(world \<Rightarrow> world \<Rightarrow> bool) \<Rightarrow> 'a py \<Rightarrow> bool" where
  "steps R m \<longleftrightarrow> (\<forall>w. R w (snd (m w)))"

definition same_reads :: "world \<Rightarrow> world \<Rightarrow> bool" where
  "same_reads w w' \<longleftrightarrow> read_paths (trace w') = read_paths (trace w)"

definition store_kept :: "world \<Rightarrow> world \<Rightarrow> bool" where
  "store_kept w w' \<longleftrightarrow>
     next_ref w \<le> next_ref w' \<and> (\<forall>r. r < next_ref w \<longrightarrow> store w' r = store w r)"

definition adds_read :: "string \<Rightarrow> 'a py \<Rightarrow> bool" where
  "adds_read p m \<longleftrightarrow> (\<forall>w. read_paths (trace (snd (m w))) = read_paths (trace w) @ [p])"

named_theorems faithful_intros
named_theorems steps_intros

lemma read_paths_append [simp]: "read_paths (xs @ ys) = read_paths xs @ read_paths ys"
  by (induction xs rule: read_paths.induct) simp_all

subsection \<open>Relations kept by every step\<close>

lemma reflp_same_reads: "same_reads w w"
  by (simp add: same_reads_def)

lemma transp_same_reads: "same_reads a b \<Longrightarrow> same_reads b c \<Longrightarrow> same_reads a c"
  by (simp add: same_reads_def)

lemma reflp_store_kept: "store_kept w w"
  by (simp add: store_kept_def)

lemma transp_store_kept: "store_kept a b \<Longrightarrow> store_kept b c \<Longrightarrow> store_kept a c"
  by (auto simp: store_kept_def)

lemma pybind_raised: "fst (m w) = Inl e \<Longrightarrow> pybind m f w = (Inl e, snd (m w))"
  by (cases "m w") (simp add: pybind_def)

lemma pybind_returned: "fst (m w) = Inr x \<Longrightarrow> pybind m f w = f x (snd (m w))"
  by (cases "m w") (simp add: pybind_def)

lemma steps_pybind:
  assumes tr: "\<And>a b c. R a b \<Longrightarrow> R b c \<Longrightarrow> R a c"
    and m: "steps R m" and f: "\<And>x. steps R (f x)"
  shows "steps R (pybind m f)"
  unfolding steps_def
proof
  fix w
  show "R w (snd (pybind m f w))"
  proof (cases "fst (m w)")
    case (Inl e)
    then have "snd (pybind m f w) = snd (m w)"
      by (simp add: pybind_raised)
    with m show ?thesis by (simp add: steps_def)
  next
    case (Inr x)
    then have "snd (pybind m f w) = snd (f x (snd (m w)))"
      by (simp add: pybind_returned)
    moreover have "R w (snd (m w))" using m by (simp add: steps_def)
    moreover have "R (snd (m w)) (snd (f x (snd (m w))))" using f by (simp add: steps_def)
    ultimately show ?thesis using tr by metis
  qed
qed

lemma steps_for_loop:
  assumes tr: "\<And>a b c. R a b \<Longrightarrow> R b c \<Longrightarrow> R a c" and rf: "\<And>a. R a a"
    and body: "\<And>x s. steps R (body x s)"
  shows "steps R (for_loop xs body s)"
proof (induction xs arbitrary: s)
  case Nil
  show ?case by (simp add: steps_def ret_def rf)
next
  case (Cons x xs)
  show ?case
    unfolding for_loop.simps
    by (rule steps_pybind [OF tr]) (auto intro: body Cons)
qed

lemmas same_reads_pybind [steps_intros] = steps_pybind [of same_reads, OF transp_same_reads]
lemmas store_kept_pybind [steps_intros] = steps_pybind [of store_kept, OF transp_store_kept]
lemmas same_reads_for_loop [steps_intros] =
  steps_for_loop [of same_reads, OF transp_same_reads reflp_same_reads]
lemmas store_kept_for_loop [steps_intros] =
  steps_for_loop [of store_kept, OF transp_store_kept reflp_store_kept]

lemma steps_ret [steps_intros]: "steps same_reads (ret x)" "steps store_kept (ret x)"
  by (simp_all add: steps_def ret_def same_reads_def store_kept_def)

lemma steps_lib_raise [steps_intros]:
  "steps same_reads (lib_raise e)" "steps store_kept (lib_raise e)"
  by (simp_all add: steps_def lib_raise_def same_reads_def store_kept_def)

lemma steps_interp_raise [steps_intros]:
  "steps same_reads (interp_raise e)" "steps store_kept (interp_raise e)"
  by (simp_all add: steps_def interp_raise_def same_reads_def store_kept_def)

lemma steps_deref [steps_intros]: "steps same_reads (deref r)" "steps store_kept (deref r)"
  by (simp_all add: steps_def deref_def same_reads_def store_kept_def)

lemma steps_alloc [steps_intros]: "steps same_reads (alloc df)" "steps store_kept (alloc df)"
  by (simp_all add: steps_def alloc_def same_reads_def store_kept_def)

lemma steps_emit_raise [steps_intros]: "steps store_kept (emit_raise ev e)"
  by (simp add: steps_def emit_raise_def store_kept_def)

lemma same_reads_emit_raise:
  "(\<And>p. ev \<noteq> Read_pickle p) \<Longrightarrow> steps same_reads (emit_raise ev e)"
  by (cases ev) (auto simp: steps_def emit_raise_def same_reads_def)

lemma steps_lib_result [steps_intros]:
  "steps same_reads (lib_result f)" "steps store_kept (lib_result f)"
  by (auto simp: steps_def lib_result_def same_reads_def store_kept_def split: sum.splits)

lemma same_reads_emit: "(\<And>p. ev \<noteq> Read_pickle p) \<Longrightarrow> steps same_reads (emit ev)"
  by (cases ev) (auto simp: steps_def emit_def same_reads_def split: option.splits)

lemma store_kept_emit [steps_intros]: "steps store_kept (emit ev)"
  by (auto simp: steps_def emit_def store_kept_def split: option.splits)

lemma steps_gca [steps_intros]:
  "steps same_reads gca_legend_handles_labels" "steps store_kept gca_legend_handles_labels"
  by (simp_all add: steps_def gca_legend_handles_labels_def same_reads_def store_kept_def)

lemma steps_local_var [steps_intros]:
  "steps same_reads (local_var name v)" "steps store_kept (local_var name v)"
  by (auto simp: local_var_def split: option.splits intro: steps_intros)

lemma steps_dict_getitem [steps_intros]:
  "steps same_reads (dict_getitem d k)" "steps store_kept (dict_getitem d k)"
  by (auto simp: dict_getitem_def split: option.splits intro: steps_intros)

subsection \<open>Faithfulness of the building blocks\<close>

lemma faithful_ret [faithful_intros]: "faithful (ret x)"
  by (simp add: faithful_def ret_def)

lemma faithful_lib_raise [faithful_intros]: "faithful (lib_raise e)"
  by (auto simp: faithful_def lib_raise_def)

lemma faithful_emit: "(\<And>e. ev \<noteq> Raised e) \<Longrightarrow> faithful (emit ev)"
  by (auto simp: faithful_def emit_def split: option.splits)

lemma faithful_emit_raise: "(\<And>e'. ev \<noteq> Raised e') \<Longrightarrow> faithful (emit_raise ev e)"
  by (auto simp: faithful_def emit_raise_def)

lemma faithful_lib_result [faithful_intros]: "faithful (lib_result f)"
  by (auto simp: faithful_def lib_result_def split: sum.splits)

lemma faithful_deref [faithful_intros]: "faithful (deref r)"
  by (simp add: faithful_def deref_def)

lemma faithful_alloc [faithful_intros]: "faithful (alloc df)"
  by (simp add: faithful_def alloc_def)

lemma faithful_gca [faithful_intros]: "faithful gca_legend_handles_labels"
  by (simp add: faithful_def gca_legend_handles_labels_def)

lemma faithful_read_pickle [faithful_intros]: "faithful (read_pickle path)"
  by (auto simp: faithful_def read_pickle_def pybind_def emit_def alloc_def
      split: option.splits)

lemma faithful_pybind [faithful_intros]:
  assumes m: "faithful m" and f: "\<And>x. faithful (f x)"
  shows "faithful (pybind m f)"
  unfolding faithful_def
proof
  fix w
  from m obtain evs1 where t1: "trace (snd (m w)) = trace w @ evs1"
    and r1: "\<And>e. (fst (m w) = Inl e) = (Raised e \<in> set evs1)"
    unfolding faithful_def by blast
  show "\<exists>evs. trace (snd (pybind m f w)) = trace w @ evs \<and>
      (\<forall>e. (fst (pybind m f w) = Inl e) = (Raised e \<in> set evs))"
  proof (cases "fst (m w)")
    case (Inl e1)
    then have "pybind m f w = (Inl e1, snd (m w))"
      by (rule pybind_raised)
    with t1 r1 Inl show ?thesis by auto
  next
    case (Inr x)
    then have run: "pybind m f w = f x (snd (m w))"
      by (rule pybind_returned)
    from f [of x] obtain evs2
      where t2: "trace (snd (f x (snd (m w)))) = trace (snd (m w)) @ evs2"
        and r2: "\<And>e. (fst (f x (snd (m w))) = Inl e) = (Raised e \<in> set evs2)"
      unfolding faithful_def by blast
    from r1 Inr have none: "\<And>e. Raised e \<notin> set evs1" by auto
    have "trace (snd (pybind m f w)) = trace w @ (evs1 @ evs2)"
      using run t1 t2 by simp
    moreover have "\<forall>e. (fst (pybind m f w) = Inl e) = (Raised e \<in> set (evs1 @ evs2))"
      using run r2 none by simp
    ultimately show ?thesis by blast
  qed
qed

lemma faithful_for_loop [faithful_intros]:
  "(\<And>x s. faithful (body x s)) \<Longrightarrow> faithful (for_loop xs body s)"
  by (induction xs arbitrary: s) (auto intro: faithful_intros)

lemmas lib_defs = subplots_def groupby_def groupby_getattr_def value_counts_def unstack_def
  plot_bar_def plot_frame_def query_eq_def axes_item_def df_columns_def df_getitem_def

lemma faithful_lib [faithful_intros]:
  "faithful (groupby r key)"
  "faithful (groupby_getattr g col)"
  "faithful (value_counts sg b)"
  "faithful (unstack s)"
  "faithful (query_eq r col v)"
  "faithful (axes_item n i)"
  "faithful (plot_bar t kw)"
  "faithful (plot_frame r kw)"
  "faithful (subplots a b' kw)"
  "faithful (df_columns r)"
  "faithful (df_getitem r label)"
  unfolding lib_defs
  by (auto intro!: faithful_intros faithful_emit faithful_emit_raise simp: Let_def)

lemma faithful_plot_fishing_grounds: "faithful (plot_fishing_grounds df)"
  unfolding plot_fishing_grounds_def
  by (auto intro!: faithful_intros faithful_emit)

lemma faithful_plot_choice_shares: "faithful (plot_choice_shares df friday)"
  unfolding plot_choice_shares_def
  by (auto intro!: faithful_intros faithful_emit)

lemma faithful_plot_choice_prob_and_exp_level: "faithful (plot_choice_prob_and_exp_level df)"
  unfolding plot_choice_prob_and_exp_level_def
  by (auto intro!: faithful_intros faithful_emit)

lemma faithful_plot_choice_prob: "faithful (plot_choice_prob df)"
  unfolding plot_choice_prob_def
  by (auto intro!: faithful_intros faithful_emit)

lemma faithful_plot_choices_kw_body: "faithful (plot_choices_kw_body (Some n) im)"
  unfolding plot_choices_kw_body_def local_var_def
  by (auto intro!: faithful_intros faithful_emit simp: Let_def split: prod.splits)

lemma pybind_ret: "pybind (ret x) f = f x"
  by (rule ext) (simp add: pybind_def ret_def)

lemma pybind_assoc: "pybind (pybind m f) g = pybind m (\<lambda>x. pybind (f x) g)"
  by (rule ext) (simp add: pybind_def split: prod.splits sum.splits)

lemma plot_choices_kw_1994:
  "plot_choices_kw ''1994'' =
     pybind (subplots 1 3 [(''figsize'', APair 15 5)]) (\<lambda>ax.
     pybind (for_loop [(0, ''kw_94_one''), (1, ''kw_94_two''), (2, ''kw_94_three'')]
               (\<lambda>im _. plot_choices_kw_body (Some ax) im) ()) (\<lambda>_.
     emit (Pyplot_call ''show'' [] [])))"
  by (simp add: plot_choices_kw_def pybind_assoc pybind_ret local_var_def numeral_2_eq_2)

lemma plot_choices_kw_1997:
  "plot_choices_kw ''1997'' =
     pybind (subplots 1 2 [(''figsize'', APair 15 5)]) (\<lambda>ax.
     pybind (for_loop [(0, ''kw_97_basic''), (1, ''kw_97_extended'')]
               (\<lambda>im _. plot_choices_kw_body (Some ax) im) ()) (\<lambda>_.
     emit (Pyplot_call ''show'' [] [])))"
  by (simp add: plot_choices_kw_def pybind_assoc pybind_ret local_var_def numeral_2_eq_2)

lemma plot_kw_97_comparison_unrolled:
  "plot_kw_97_comparison =
     pybind (read_pickle (pkl_path ''kw_97_obs'')) (\<lambda>obs.
     pybind (read_pickle (pkl_path ''kw_97_basic'')) (\<lambda>basic.
     pybind (read_pickle (pkl_path ''kw_97_extended'')) (\<lambda>ext.
     pybind (subplots 2 3 [(''figsize'', APair 15 9)]) (\<lambda>ax.
     pybind (df_columns ext) (\<lambda>cols.
     pybind (for_loop (List.enumerate 0 (zip cols
                 [''tab:blue'', ''tab:orange'', ''tab:green'', ''tab:red'', ''tab:purple'']))
               (\<lambda>icc _. plot_kw_97_comparison_body ax
                  [(''kw_97_obs'', obs), (''kw_97_basic'', basic), (''kw_97_extended'', ext)]
                  icc) ()) (\<lambda>_.
     pybind (axes_item ax 4) (\<lambda>a.
     pybind (emit (Axes_call a ''legend'' []
               [(''loc'', AStr ''lower center''), (''ncol'', AInt 5),
                (''bbox_to_anchor'', APair (- 3 / 10) (- 3 / 10)),
                (''fontsize'', AInt 12)])) (\<lambda>_.
     pybind (axes_item ax 5) (\<lambda>a.
     pybind (emit (Delaxes a)) (\<lambda>_.
     emit (Pyplot_call ''show'' [] [])))))))))))"
  by (simp add: plot_kw_97_comparison_def pybind_assoc pybind_ret local_var_def)

lemma faithful_plot_choices_kw_1994: "faithful (plot_choices_kw ''1994'')"
  unfolding plot_choices_kw_1994
  by (auto intro!: faithful_intros faithful_emit faithful_plot_choices_kw_body)

lemma faithful_plot_choices_kw_1997: "faithful (plot_choices_kw ''1997'')"
  unfolding plot_choices_kw_1997
  by (auto intro!: faithful_intros faithful_emit faithful_plot_choices_kw_body)

lemma steps_lib [steps_intros]:
  "steps same_reads (groupby r key)" "steps store_kept (groupby r key)"
  "steps same_reads (groupby_getattr g col)" "steps store_kept (groupby_getattr g col)"
  "steps same_reads (value_counts sg b)" "steps store_kept (value_counts sg b)"
  "steps same_reads (query_eq r col v)" "steps store_kept (query_eq r col v)"
  "steps same_reads (axes_item n i)" "steps store_kept (axes_item n i)"
  "steps same_reads (plot_bar t kw)" "steps store_kept (plot_bar t kw)"
  "steps same_reads (plot_frame r kw)" "steps store_kept (plot_frame r kw)"
  "steps same_reads (subplots a b' kw)" "steps store_kept (subplots a b' kw)"
  "steps same_reads (df_columns r)" "steps store_kept (df_columns r)"
  "steps same_reads (df_getitem r label)" "steps store_kept (df_getitem r label)"
  "steps same_reads (unstack s)" "steps store_kept (unstack s)"
  "steps same_reads (label_capitalize c)" "steps store_kept (label_capitalize c)"
  unfolding lib_defs label_capitalize_def
  by (auto intro!: steps_intros same_reads_emit same_reads_emit_raise simp: Let_def
      split: cell.splits)

lemma same_reads_plot_fishing_grounds: "steps same_reads (plot_fishing_grounds df)"
  unfolding plot_fishing_grounds_def
  by (auto intro!: steps_intros same_reads_emit)

lemma store_kept_plot_fishing_grounds: "steps store_kept (plot_fishing_grounds df)"
  unfolding plot_fishing_grounds_def
  by (auto intro!: steps_intros)

lemma same_reads_plot_choice_shares: "steps same_reads (plot_choice_shares df friday)"
  unfolding plot_choice_shares_def
  by (auto intro!: steps_intros same_reads_emit)



lemma same_reads_plot_choice_prob_and_exp_level:
  "steps same_reads (plot_choice_prob_and_exp_level df)"
  unfolding plot_choice_prob_and_exp_level_def
  by (auto intro!: steps_intros same_reads_emit)

lemma same_reads_plot_choice_prob: "steps same_reads (plot_choice_prob df)"
  unfolding plot_choice_prob_def
  by (auto intro!: steps_intros same_reads_emit)

lemma adds_read_read_pickle: "adds_read path (read_pickle path)"
  by (auto simp: adds_read_def read_pickle_def pybind_def emit_def alloc_def
      split: option.splits)

lemma adds_read_pybind:
  assumes m: "adds_read p m" and f: "\<And>x. steps same_reads (f x)"
  shows "adds_read p (pybind m f)"
  unfolding adds_read_def
proof
  fix w
  show "read_paths (trace (snd (pybind m f w))) = read_paths (trace w) @ [p]"
  proof (cases "fst (m w)")
    case (Inl e)
    then show ?thesis using m by (simp add: pybind_raised adds_read_def)
  next
    case (Inr x)
    then show ?thesis
      using m f [of x] by (simp add: pybind_returned adds_read_def steps_def same_reads_def)
  qed
qed

text \<open>A loop whose every round reads one file reads the files of a prefix of its list.\<close>

lemma for_loop_reads:
  assumes body: "\<And>x s. adds_read (g x) (body x s)"
  shows "\<exists>n. (xs = [] \<or> 0 < n) \<and>
     (\<forall>v. (fst (for_loop xs body s w) = Inr v) \<le> (n = length xs)) \<and>
     read_paths (trace (snd (for_loop xs body s w))) =
       read_paths (trace w) @ take n (map g xs)"
proof (induction xs arbitrary: s w)
  case Nil
  show ?case by (simp add: ret_def)
next
  case (Cons x xs)
  have one: "read_paths (trace (snd (body x s w))) = read_paths (trace w) @ [g x]"
    using body by (simp add: adds_read_def)
  show ?case
  proof (cases "fst (body x s w)")
    case (Inl e)
    then have "for_loop (x # xs) body s w = (Inl e, snd (body x s w))"
      by (simp add: pybind_raised)
    with one show ?thesis by (intro exI [of _ 1]) simp
  next
    case (Inr s')
    then have run: "for_loop (x # xs) body s w = for_loop xs body s' (snd (body x s w))"
      by (simp add: pybind_returned)
    from Cons [of s' "snd (body x s w)"] obtain n
      where n: "\<forall>v. (fst (for_loop xs body s' (snd (body x s w))) = Inr v) \<le> (n = length xs)"
        "read_paths (trace (snd (for_loop xs body s' (snd (body x s w))))) =
         read_paths (trace (snd (body x s w))) @ take n (map g xs)"
      by blast
    with one run show ?thesis by (intro exI [of _ "Suc n"]) simp
  qed
qed

lemma adds_read_plot_choices_kw_body:
  "adds_read (pkl_path (snd im)) (plot_choices_kw_body ax im)"
  unfolding plot_choices_kw_body_def
  by (auto simp: Let_def split: prod.splits
      intro!: adds_read_pybind adds_read_read_pickle steps_intros same_reads_emit)

subsection \<open>What each function reads\<close>

lemma store_kept_plot_choice_shares: "steps store_kept (plot_choice_shares df friday)"
  unfolding plot_choice_shares_def
  by (auto intro!: steps_intros)

lemma store_kept_plot_choice_prob_and_exp_level:
  "steps store_kept (plot_choice_prob_and_exp_level df)"
  unfolding plot_choice_prob_and_exp_level_def
  by (auto intro!: steps_intros)

lemma store_kept_plot_choice_prob: "steps store_kept (plot_choice_prob df)"
  unfolding plot_choice_prob_def
  by (auto intro!: steps_intros)

lemma pybind_returned_first: "fst (pybind m f w) = Inr y \<Longrightarrow> \<exists>x. fst (m w) = Inr x"
  by (cases "m w") (auto simp: pybind_def split: sum.splits)

lemma reads_pybind_same:
  assumes f: "\<And>x. steps same_reads (f x)"
  shows "read_paths (trace (snd (pybind m f w))) = read_paths (trace (snd (m w)))"
proof (cases "fst (m w)")
  case (Inl e)
  then show ?thesis by (simp add: pybind_raised)
next
  case (Inr x)
  then show ?thesis using f [of x] by (simp add: pybind_returned steps_def same_reads_def)
qed

text \<open>One read, then a computation that reads a prefix of \<open>ps\<close>: a prefix of \<open>p # ps\<close>.\<close>

lemma reads_chain:
  assumes m: "adds_read p m"
    and f: "\<And>x w1. \<exists>n. read_paths (trace (snd (f x w1))) = read_paths (trace w1) @ take n ps \<and>
               (fst (f x w1) = Inr () \<longrightarrow> n = length ps)"
  shows "\<exists>n. 0 < n \<and>
     read_paths (trace (snd (pybind m f w))) = read_paths (trace w) @ take n (p # ps) \<and>
     (fst (pybind m f w) = Inr () \<longrightarrow> n = length (p # ps))"
proof (cases "fst (m w)")
  case (Inl e)
  then have "pybind m f w = (Inl e, snd (m w))" by (rule pybind_raised)
  with m show ?thesis by (intro exI [of _ 1]) (simp add: adds_read_def)
next
  case (Inr x)
  then have run: "pybind m f w = f x (snd (m w))" by (rule pybind_returned)
  from f [of x "snd (m w)"] obtain n
    where "read_paths (trace (snd (f x (snd (m w))))) =
             read_paths (trace (snd (m w))) @ take n ps"
      and "fst (f x (snd (m w))) = Inr () \<longrightarrow> n = length ps"
    by blast
  with m run show ?thesis by (intro exI [of _ "Suc n"]) (simp add: adds_read_def)
qed

lemma reads_kw_loop:
  "\<exists>n. read_paths (trace (snd (pybind (for_loop ms (\<lambda>im _. plot_choices_kw_body ax im) ())
          (\<lambda>_. emit (Pyplot_call ''show'' [] [])) w))) =
        read_paths (trace w) @ take n (map (\<lambda>im. pkl_path (snd im)) ms) \<and>
      (fst (pybind (for_loop ms (\<lambda>im _. plot_choices_kw_body ax im) ())
          (\<lambda>_. emit (Pyplot_call ''show'' [] [])) w) = Inr () \<longrightarrow> n = length ms)"
proof -
  let ?loop = "for_loop ms (\<lambda>im _. plot_choices_kw_body ax im) ()"
  let ?all = "pybind ?loop (\<lambda>_. emit (Pyplot_call ''show'' [] []))"
  have same: "read_paths (trace (snd (?all w))) = read_paths (trace (snd (?loop w)))"
    by (rule reads_pybind_same) (simp add: same_reads_emit)
  from for_loop_reads [of "\<lambda>im. pkl_path (snd im)" "\<lambda>im _. plot_choices_kw_body ax im" ms "()" w]
  obtain n where n: "\<forall>v. (fst (?loop w) = Inr v) \<le> (n = length ms)"
    "read_paths (trace (snd (?loop w))) =
     read_paths (trace w) @ take n (map (\<lambda>im. pkl_path (snd im)) ms)"
    using adds_read_plot_choices_kw_body by blast
  have "fst (?all w) = Inr () \<longrightarrow> n = length ms"
  proof
    assume "fst (?all w) = Inr ()"
    then obtain v where "fst (?loop w) = Inr v" by (blast dest: pybind_returned_first)
    with n(1) show "n = length ms" by (auto simp: le_bool_def)
  qed
  with same n(2) show ?thesis by auto
qed

lemma subplots_reads: "read_paths (trace (snd (subplots a b kw w))) = read_paths (trace w)"
  using steps_lib(15) [of a b kw] by (simp add: steps_def same_reads_def)

lemma reads_after_subplots:
  assumes f: "\<And>ax w1. \<exists>n. read_paths (trace (snd (f ax w1))) = read_paths (trace w1) @ take n ps \<and>
               (fst (f ax w1) = Inr () \<longrightarrow> n = length ps)"
  shows "\<exists>n. read_paths (trace (snd (pybind (subplots a b kw) f w))) =
             read_paths (trace w) @ take n ps \<and>
           (fst (pybind (subplots a b kw) f w) = Inr () \<longrightarrow> n = length ps)"
proof (cases "fst (subplots a b kw w)")
  case (Inl e)
  then have "pybind (subplots a b kw) f w = (Inl e, snd (subplots a b kw w))"
    by (rule pybind_raised)
  then show ?thesis by (intro exI [of _ 0]) (simp add: subplots_reads)
next
  case (Inr ax)
  then have "pybind (subplots a b kw) f w = f ax (snd (subplots a b kw w))"
    by (rule pybind_returned)
  with f [of ax "snd (subplots a b kw w)"] show ?thesis by (simp add: subplots_reads)
qed

lemma reads_kw_models:
  "\<exists>n. read_paths (trace (snd (pybind (subplots a b kw) (\<lambda>ax.
          pybind (for_loop ms (\<lambda>im _. plot_choices_kw_body (Some ax) im) ())
            (\<lambda>_. emit (Pyplot_call ''show'' [] []))) w))) =
        read_paths (trace w) @ take n (map (\<lambda>im. pkl_path (snd im)) ms) \<and>
      (fst (pybind (subplots a b kw) (\<lambda>ax.
          pybind (for_loop ms (\<lambda>im _. plot_choices_kw_body (Some ax) im) ())
            (\<lambda>_. emit (Pyplot_call ''show'' [] []))) w) = Inr () \<longrightarrow>
         n = length (map (\<lambda>im. pkl_path (snd im)) ms))"
  by (rule reads_after_subplots) (simp add: reads_kw_loop)

lemma reads_plot_choices_kw_1994:
  "\<exists>n. read_paths (trace (snd (plot_choices_kw ''1994'' w))) =
       read_paths (trace w) @
       take n (map pkl_path [''kw_94_one'', ''kw_94_two'', ''kw_94_three'']) \<and>
     (fst (plot_choices_kw ''1994'' w) = Inr () \<longrightarrow> n = 3)"
  unfolding plot_choices_kw_1994
  using reads_kw_models [of 1 3 "[(''figsize'', APair 15 5)]"
      "[(0, ''kw_94_one''), (1, ''kw_94_two''), (2, ''kw_94_three'')]" w]
  by (simp del: for_loop.simps add: numeral_3_eq_3)

lemma reads_plot_choices_kw_1997:
  "\<exists>n. read_paths (trace (snd (plot_choices_kw ''1997'' w))) =
       read_paths (trace w) @ take n (map pkl_path [''kw_97_basic'', ''kw_97_extended'']) \<and>
     (fst (plot_choices_kw ''1997'' w) = Inr () \<longrightarrow> n = 2)"
  unfolding plot_choices_kw_1997
  using reads_kw_models [of 1 2 "[(''figsize'', APair 15 5)]"
      "[(0, ''kw_97_basic''), (1, ''kw_97_extended'')]" w]
  by (simp del: for_loop.simps add: numeral_2_eq_2)

lemma same_reads_plot_kw_97_comparison_body:
  "steps same_reads (plot_kw_97_comparison_body ax data icc)"
  unfolding plot_kw_97_comparison_body_def
  by (auto intro!: steps_intros same_reads_emit split: prod.splits)

lemma reads_plot_kw_97_comparison:
  "\<exists>n. 0 < n \<and>
     read_paths (trace (snd (plot_kw_97_comparison w))) =
       read_paths (trace w) @
       take n (map pkl_path [''kw_97_obs'', ''kw_97_basic'', ''kw_97_extended'']) \<and>
     (fst (plot_kw_97_comparison w) = Inr () \<longrightarrow> n = 3)"
proof -
  have rest: "\<exists>n. read_paths (trace (snd (f w1))) = read_paths (trace w1) @ take n [] \<and>
      (fst (f w1) = Inr () \<longrightarrow> n = length ([] :: string list))"
    if "steps same_reads f" for f :: "unit py" and w1
    using that by (simp add: steps_def same_reads_def)
  have third: "\<exists>n. 0 < n \<and> read_paths (trace (snd (pybind (read_pickle p) f w1))) =
        read_paths (trace w1) @ take n [p] \<and>
      (fst (pybind (read_pickle p) f w1) = Inr () \<longrightarrow> n = length [p])"
    if "\<And>x. steps same_reads (f x)" for f :: "nat \<Rightarrow> unit py" and p w1
    by (rule reads_chain [OF adds_read_read_pickle rest]) (rule that)
  have second: "\<exists>n. 0 < n \<and>
      read_paths (trace (snd (pybind (read_pickle p) (\<lambda>x. pybind (read_pickle q) (f x)) w1))) =
        read_paths (trace w1) @ take n [p, q] \<and>
      (fst (pybind (read_pickle p) (\<lambda>x. pybind (read_pickle q) (f x)) w1) = Inr () \<longrightarrow>
         n = length [p, q])"
    if "\<And>x y. steps same_reads (f x y)" for f :: "nat \<Rightarrow> nat \<Rightarrow> unit py" and p q w1
    by (rule reads_chain [OF adds_read_read_pickle]) (use third that in blast)
  have all: "\<exists>n. 0 < n \<and>
      read_paths (trace (snd (pybind (read_pickle p)
          (\<lambda>x. pybind (read_pickle q) (\<lambda>y. pybind (read_pickle r) (f x y))) w1))) =
        read_paths (trace w1) @ take n (map pkl_path ms) \<and>
      (fst (pybind (read_pickle p)
          (\<lambda>x. pybind (read_pickle q) (\<lambda>y. pybind (read_pickle r) (f x y))) w1) = Inr () \<longrightarrow>
         n = 3)"
    if "\<And>x y z. steps same_reads (f x y z)" and "map pkl_path ms = [p, q, r]"
    for f :: "nat \<Rightarrow> nat \<Rightarrow> nat \<Rightarrow> unit py" and p q r w1 ms
  proof -
    have "\<exists>n. read_paths (trace (snd (pybind (read_pickle q)
            (\<lambda>y. pybind (read_pickle r) (f x y)) w2))) =
          read_paths (trace w2) @ take n [q, r] \<and>
        (fst (pybind (read_pickle q) (\<lambda>y. pybind (read_pickle r) (f x y)) w2) = Inr () \<longrightarrow>
           n = length [q, r])" for x w2
      using second [of "f x" q r w2] that(1) by blast
    then show ?thesis
      using reads_chain [where w = w1 and p = p and ps = "[q, r]"
          and f = "\<lambda>x. pybind (read_pickle q) (\<lambda>y. pybind (read_pickle r) (f x y))",
          OF adds_read_read_pickle] that(2)
      by (simp add: numeral_3_eq_3)
  qed
  show ?thesis
    unfolding plot_kw_97_comparison_unrolled
    by (rule all)
      (auto intro!: steps_intros same_reads_emit same_reads_plot_kw_97_comparison_body)
qed

section \<open>Runs that return\<close>

text \<open>
  The expression \<^verbatim>\<open>df.groupby("Period").<col>.value_counts(normalize=True).unstack()\<close>
  that the four frame functions evaluate.
\<close>

definition period_shares :: "nat \<Rightarrow> string \<Rightarrow> table py" where
  "period_shares df col =
     pybind (groupby df ''Period'') (\<lambda>g.
     pybind (groupby_getattr g col) (\<lambda>sg.
     pybind (value_counts sg True) (\<lambda>vc.
     unstack vc)))"

named_theorems run_simps

lemma pybind_Inr [run_simps]:
  "pybind m f w = (Inr y, w'') \<longleftrightarrow> (\<exists>x w'. m w = (Inr x, w') \<and> f x w' = (Inr y, w''))"
  by (cases "m w") (auto simp: pybind_def split: sum.splits)

lemma ret_Inr [run_simps]: "ret x w = (Inr y, w') \<longleftrightarrow> y = x \<and> w' = w"
  by (auto simp: ret_def)

lemma emit_Inr [run_simps]:
  "emit ev w = (Inr u, w') \<longleftrightarrow>
     lib_error w (trace w) ev = None \<and> w' = w\<lparr>trace := trace w @ [ev]\<rparr>"
  by (auto simp: emit_def split: option.splits)

lemma emit_raise_Inr [run_simps]: "emit_raise ev e w = (Inr y, w') \<longleftrightarrow> False"
  by (simp add: emit_raise_def)

lemma lib_raise_Inr [run_simps]: "lib_raise e w = (Inr y, w') \<longleftrightarrow> False"
  by (simp add: lib_raise_def)

lemma lib_result_Inr [run_simps]: "lib_result f w = (Inr y, w') \<longleftrightarrow> f w = Inr y \<and> w' = w"
  by (auto simp: lib_result_def split: sum.splits)

lemma interp_raise_Inr [run_simps]: "interp_raise e w = (Inr y, w') \<longleftrightarrow> False"
  by (simp add: interp_raise_def)

lemma alloc_Inr [run_simps]:
  "alloc df w = (Inr r, w') \<longleftrightarrow> r = next_ref w \<and>
     w' = w\<lparr>store := (store w)(next_ref w := df), next_ref := Suc (next_ref w)\<rparr>"
  by (auto simp: alloc_def)

lemma deref_Inr [run_simps]: "deref r w = (Inr df, w') \<longleftrightarrow> df = store w r \<and> w' = w"
  by (auto simp: deref_def)

lemma gca_Inr [run_simps]:
  "gca_legend_handles_labels w = (Inr hl, w') \<longleftrightarrow>
     hl = legend_handles_labels w (trace w) \<and> w' = w"
  by (auto simp: gca_legend_handles_labels_def)

lemma read_pickle_Inr [run_simps]:
  "read_pickle path w = (Inr r, w') \<longleftrightarrow>
     (\<exists>df. files w path = Some df \<and> lib_error w (trace w) (Read_pickle path) = None \<and>
        r = next_ref w \<and>
        w' = w\<lparr>store := (store w)(next_ref w := df), next_ref := Suc (next_ref w),
               trace := trace w @ [Read_pickle path]\<rparr>)"
  by (auto simp: read_pickle_def pybind_def emit_def alloc_def split: option.splits)

lemma returned_iff: "fst (m w) = Inr x \<longleftrightarrow> m w = (Inr x, snd (m w))"
  by (cases "m w") simp

text \<open>The pipeline reads the frame and the world's parameters only.\<close>

lemma period_shares_Inr:
  "period_shares r col w = (Inr t, w') \<longleftrightarrow> fst (period_shares r col w) = Inr t \<and> w' = w"
  unfolding period_shares_def lib_defs
  by (auto simp: pybind_def deref_def ret_def lib_raise_def lib_result_def Let_def
      split: sum.splits)

lemma period_shares_trace [simp]:
  "fst (period_shares r col (w\<lparr>trace := tr\<rparr>)) = fst (period_shares r col w)"
  unfolding period_shares_def lib_defs
  by (auto simp: pybind_def deref_def ret_def lib_raise_def lib_result_def Let_def
      split: sum.splits)

lemma shares_then:
  "pybind (groupby r ''Period'') (\<lambda>g.
     pybind (groupby_getattr g col) (\<lambda>sg.
     pybind (value_counts sg True) (\<lambda>vc.
     pybind (unstack vc) f))) = pybind (period_shares r col) f"
  by (simp add: period_shares_def pybind_assoc)

section \<open>Example data\<close>

text \<open>A small frame in the shape the tutorial uses, and a world that holds it.\<close>

definition mk_row :: "int \<Rightarrow> string \<Rightarrow> int \<Rightarrow> string \<Rightarrow> cell \<Rightarrow> cell" where
  "mk_row period choice experience grounds = (\<lambda>c.
     if c = StrC ''Period'' then IntC period
     else if c = StrC ''Choice'' then StrC choice
     else if c = StrC ''Experience_Fishing'' then IntC experience
     else StrC grounds)"

definition robinson :: dataframe where
  "robinson = \<lparr>columns = [StrC ''Period'', StrC ''Choice'', StrC ''Experience_Fishing'',
       StrC ''Fishing_Grounds''],
     rows = [mk_row 0 ''fishing'' 0 ''rich'', mk_row 0 ''hammock'' 0 ''poor'',
             mk_row 0 ''fishing'' 0 ''poor'', mk_row 1 ''fishing'' 1 ''rich'',
             mk_row 1 ''hammock'' 1 ''poor'', mk_row 1 ''hammock'' 0 ''swamp'']\<rparr>"

definition demo_world :: world where
  "demo_world = \<lparr>files = Map.empty, legend_handles_labels = (\<lambda>_. ([], [])),
     lib_error = (\<lambda>_ _. None),
     mixed_value_counts = (\<lambda>_ _ _ _. Inl (TypeError ''mixed labels'')),
     mixed_unstack = (\<lambda>_. Inl (TypeError ''mixed labels'')),
     store = (\<lambda>_. robinson), next_ref = 1, trace = []\<rparr>"

text \<open>
  A world whose \<^verbatim>\<open>data/\<close> directory holds the five model files and the observed data,
  each a frame of two periods; the current axes report two labels twice.
\<close>

definition shares_frame :: "string list \<Rightarrow> dataframe" where
  "shares_frame cols =
     \<lparr>columns = map StrC cols, rows = [(\<lambda>c. NumC (1 / 2)), (\<lambda>c. NumC (1 / 4))]\<rparr>"

definition kw_world :: world where
  "kw_world = \<lparr>files = map_of
       [(''data/choices_kw_94_one.pkl'', shares_frame [''a'', ''b'', ''home'']),
        (''data/choices_kw_94_two.pkl'', shares_frame [''a'', ''b'', ''home'']),
        (''data/choices_kw_94_three.pkl'', shares_frame [''a'', ''b'', ''home'']),
        (''data/choices_kw_97_obs.pkl'', shares_frame [''home'', ''school'', ''white_collar'']),
        (''data/choices_kw_97_basic.pkl'', shares_frame [''home'', ''school'', ''white_collar'']),
        (''data/choices_kw_97_extended.pkl'', shares_frame [''school'', ''home''])],
     legend_handles_labels = (\<lambda>_. ([1, 2, 3, 4], [''a'', ''b'', ''a'', ''b''])),
     lib_error = (\<lambda>_ _. None),
     mixed_value_counts = (\<lambda>_ _ _ _. Inl (TypeError ''mixed labels'')),
     mixed_unstack = (\<lambda>_. Inl (TypeError ''mixed labels'')),
     store = (\<lambda>_. robinson), next_ref = 0, trace = []\<rparr>"

lemma trace_kw_world: "trace kw_world = []"
  by (simp add: kw_world_def)

lemma kw_world_runs:
  "fst (plot_choices_kw ''1994'' kw_world) = Inr ()"
  "fst (plot_choices_kw ''1997'' kw_world) = Inr ()"
  "fst (plot_kw_97_comparison kw_world) = Inr ()"
  by code_simp+

section \<open>File input\<close>

text \<open>
  Claim C2. The four functions that take a frame read no file: the paths read in the
  trace after the call are those before it. \<^verbatim>\<open>plot_choices_kw\<close> and
  \<^verbatim>\<open>plot_kw_97_comparison\<close> are the two that read: the paths they read are, in order,
  the paths \<^verbatim>\<open>data/choices_<model>.pkl\<close> of the first \<open>n\<close> of their model names, all of
  them when the call returns; \<^verbatim>\<open>plot_kw_97_comparison\<close> reads at least one.
\<close>

theorem file_reads:
  "read_paths (trace (snd (plot_fishing_grounds df w))) = read_paths (trace w) \<and>
   read_paths (trace (snd (plot_choice_shares df friday w))) = read_paths (trace w) \<and>
   read_paths (trace (snd (plot_choice_prob_and_exp_level df w))) = read_paths (trace w) \<and>
   read_paths (trace (snd (plot_choice_prob df w))) = read_paths (trace w) \<and>
   (\<exists>n. read_paths (trace (snd (plot_choices_kw ''1994'' w))) =
        read_paths (trace w) @
        take n (map (\<lambda>m. ''data/choices_'' @ m @ ''.pkl'')
          [''kw_94_one'', ''kw_94_two'', ''kw_94_three'']) \<and>
      (fst (plot_choices_kw ''1994'' w) = Inr () \<longrightarrow> n = 3)) \<and>
   (\<exists>n. read_paths (trace (snd (plot_choices_kw ''1997'' w))) =
        read_paths (trace w) @
        take n (map (\<lambda>m. ''data/choices_'' @ m @ ''.pkl'')
          [''kw_97_basic'', ''kw_97_extended'']) \<and>
      (fst (plot_choices_kw ''1997'' w) = Inr () \<longrightarrow> n = 2)) \<and>
   (\<exists>n. 0 < n \<and>
      read_paths (trace (snd (plot_kw_97_comparison w))) =
        read_paths (trace w) @
        take n (map (\<lambda>m. ''data/choices_'' @ m @ ''.pkl'')
          [''kw_97_obs'', ''kw_97_basic'', ''kw_97_extended'']) \<and>
      (fst (plot_kw_97_comparison w) = Inr () \<longrightarrow> n = 3))"
proof (intro conjI)
  show "read_paths (trace (snd (plot_fishing_grounds df w))) = read_paths (trace w)"
    using same_reads_plot_fishing_grounds by (simp add: steps_def same_reads_def)
  show "read_paths (trace (snd (plot_choice_shares df friday w))) = read_paths (trace w)"
    using same_reads_plot_choice_shares by (simp add: steps_def same_reads_def)
  show "read_paths (trace (snd (plot_choice_prob_and_exp_level df w))) = read_paths (trace w)"
    using same_reads_plot_choice_prob_and_exp_level by (simp add: steps_def same_reads_def)
  show "read_paths (trace (snd (plot_choice_prob df w))) = read_paths (trace w)"
    using same_reads_plot_choice_prob by (simp add: steps_def same_reads_def)
  show "\<exists>n. read_paths (trace (snd (plot_choices_kw ''1994'' w))) =
        read_paths (trace w) @
        take n (map (\<lambda>m. ''data/choices_'' @ m @ ''.pkl'')
          [''kw_94_one'', ''kw_94_two'', ''kw_94_three'']) \<and>
      (fst (plot_choices_kw ''1994'' w) = Inr () \<longrightarrow> n = 3)"
    using reads_plot_choices_kw_1994 [of w] by (simp add: pkl_path_def)
  show "\<exists>n. read_paths (trace (snd (plot_choices_kw ''1997'' w))) =
        read_paths (trace w) @
        take n (map (\<lambda>m. ''data/choices_'' @ m @ ''.pkl'')
          [''kw_97_basic'', ''kw_97_extended'']) \<and>
      (fst (plot_choices_kw ''1997'' w) = Inr () \<longrightarrow> n = 2)"
    using reads_plot_choices_kw_1997 [of w] by (simp add: pkl_path_def)
  show "\<exists>n. 0 < n \<and>
      read_paths (trace (snd (plot_kw_97_comparison w))) =
        read_paths (trace w) @
        take n (map (\<lambda>m. ''data/choices_'' @ m @ ''.pkl'')
          [''kw_97_obs'', ''kw_97_basic'', ''kw_97_extended'']) \<and>
      (fst (plot_kw_97_comparison w) = Inr () \<longrightarrow> n = 3)"
    using reads_plot_kw_97_comparison [of w] by (simp add: pkl_path_def)
qed

theorem file_reads_witness:
  "fst (plot_choices_kw ''1994'' kw_world) = Inr () \<and>
   read_paths (trace (snd (plot_choices_kw ''1994'' kw_world))) =
     [''data/choices_kw_94_one.pkl'', ''data/choices_kw_94_two.pkl'',
      ''data/choices_kw_94_three.pkl''] \<and>
   fst (plot_choices_kw ''1997'' kw_world) = Inr () \<and>
   read_paths (trace (snd (plot_choices_kw ''1997'' kw_world))) =
     [''data/choices_kw_97_basic.pkl'', ''data/choices_kw_97_extended.pkl''] \<and>
   fst (plot_kw_97_comparison kw_world) = Inr () \<and>
   read_paths (trace (snd (plot_kw_97_comparison kw_world))) =
     [''data/choices_kw_97_obs.pkl'', ''data/choices_kw_97_basic.pkl'',
      ''data/choices_kw_97_extended.pkl'']"
  using file_reads [of 0 kw_world True] kw_world_runs
  by (auto simp: trace_kw_world)

section \<open>The caller's frame\<close>

text \<open>
  Claim C4. Each of the four functions that take a frame leaves the caller's object as
  it was: the store holds the same frame (the same columns, rows and cells) under the
  argument's reference after the call as before it, whether the call returns or raises.
\<close>

theorem caller_frame_unchanged:
  "df < next_ref w \<Longrightarrow>
   store (snd (plot_fishing_grounds df w)) df = store w df \<and>
   store (snd (plot_choice_shares df friday w)) df = store w df \<and>
   store (snd (plot_choice_prob_and_exp_level df w)) df = store w df \<and>
   store (snd (plot_choice_prob df w)) df = store w df"
  using store_kept_plot_fishing_grounds [of df] store_kept_plot_choice_shares [of df friday]
    store_kept_plot_choice_prob_and_exp_level [of df] store_kept_plot_choice_prob [of df]
  by (simp add: steps_def store_kept_def)

theorem caller_frame_unchanged_witness:
  "0 < next_ref demo_world \<and>
   store (snd (plot_fishing_grounds 0 demo_world)) 0 = robinson \<and>
   store (snd (plot_choice_shares 0 True demo_world)) 0 = robinson \<and>
   store (snd (plot_choice_prob_and_exp_level 0 demo_world)) 0 = robinson \<and>
   store (snd (plot_choice_prob 0 demo_world)) 0 = robinson"
  using caller_frame_unchanged [of 0 demo_world True] by (simp add: demo_world_def)

section \<open>Exceptions\<close>

text \<open>
  Claim C5 says that a function raises exactly when an underlying library call raises,
  and then with that call's exception. The code breaks this at \<^verbatim>\<open>plot_choices_kw("2000")\<close>,
  an argument its docstring names: no branch assigns \<open>models\<close>, the loop header raises
  an unbound-local error in the module's own code, and no library call has been made:
  the run is not faithful to the library.
\<close>

theorem plot_choices_kw_2000_not_faithful:
  "(\<forall>w. plot_choices_kw ''2000'' w = (Inl (UnboundLocalError ''models''), w)) \<and>
   \<not> faithful (plot_choices_kw ''2000'')"
proof
  have run: "plot_choices_kw ''2000'' w = (Inl (UnboundLocalError ''models''), w)" for w
    by (simp add: plot_choices_kw_def pybind_def ret_def local_var_def interp_raise_def)
  then show "\<forall>w. plot_choices_kw ''2000'' w = (Inl (UnboundLocalError ''models''), w)"
    by blast
  show "\<not> faithful (plot_choices_kw ''2000'')"
  proof
    assume "faithful (plot_choices_kw ''2000'')"
    then obtain evs
      where t: "trace (snd (plot_choices_kw ''2000'' demo_world)) = trace demo_world @ evs"
        and r: "\<And>e. (fst (plot_choices_kw ''2000'' demo_world) = Inl e) = (Raised e \<in> set evs)"
      unfolding faithful_def by metis
    from t run have "evs = []" by simp
    with r [of "UnboundLocalError ''models''"] run show False by simp
  qed
qed

section \<open>Unassigned locals in \<^verbatim>\<open>plot_choices_kw\<close>\<close>

text \<open>
  Claim C8. For every string argument other than "1994" and "1997", \<^verbatim>\<open>plot_choices_kw\<close>
  raises an unbound-local error for \<open>models\<close> before any file is read and before any
  rendering call: the world, and with it the trace, is the one the call started in.
\<close>

theorem plot_choices_kw_unbound_models:
  "example \<noteq> ''1994'' \<Longrightarrow> example \<noteq> ''1997'' \<Longrightarrow>
   plot_choices_kw example w = (Inl (UnboundLocalError ''models''), w)"
  by (simp add: plot_choices_kw_def pybind_def ret_def local_var_def interp_raise_def)

theorem plot_choices_kw_unbound_models_witness:
  "''2000'' \<noteq> ''1994'' \<and> ''2000'' \<noteq> ''1997'' \<and>
   (\<forall>w. plot_choices_kw ''2000'' w = (Inl (UnboundLocalError ''models''), w))"
  using plot_choices_kw_unbound_models [of "''2000''"] by simp

section \<open>The flag of \<^verbatim>\<open>plot_choice_shares\<close>\<close>

lemma demo_world_shares_run:
  "fst (plot_choice_shares 0 True demo_world) = Inr ()"
  "fst (plot_choice_shares 0 False demo_world) = Inr ()"
  by code_simp+

text \<open>
  Claim C1. A call of \<^verbatim>\<open>plot_choice_shares\<close> that returns has made exactly these calls:
  one stacked bar plot of the table \<open>t\<close> of shares per period, with the palette
  \<^verbatim>\<open>["C0", "C2", "C1"]\<close> and a legend of 3 columns when \<open>friday\<close> is true, and with the
  palette \<^verbatim>\<open>["C0", "C1"]\<close> and a legend of 2 columns when it is false. The table is the
  one the aggregation yields on the caller's frame, whatever the flag, and nothing else
  of the world changes.
\<close>

theorem plot_choice_shares_flag:
  assumes "fst (plot_choice_shares df friday w) = Inr ()"
  shows "\<exists>t. fst (period_shares df ''Choice'' w) = Inr t \<and>
     snd (plot_choice_shares df friday w) =
     w\<lparr>trace := trace w @
       [Subplots 1 1 [],
        Plot_bar t
          [(''stacked'', ABool True), (''ax'', AAxis 0),
           (''color'', AStrs (if friday then [''C0'', ''C2'', ''C1''] else [''C0'', ''C1'']))],
        Pyplot_call ''xticks'' [] [(''rotation'', AStr ''horizontal'')],
        Pyplot_call ''legend'' []
          [(''loc'', AStr ''lower center''), (''bbox_to_anchor'', APair (1 / 2) (- 275 / 1000)),
           (''ncol'', AInt (if friday then 3 else 2))],
        Pyplot_call ''show'' [] [],
        Pyplot_call ''close'' [] []]\<rparr>"
proof -
  from assms have "plot_choice_shares df friday w = (Inr (), snd (plot_choice_shares df friday w))"
    by (simp add: returned_iff)
  then show ?thesis
    unfolding plot_choice_shares_def shares_then subplots_def plot_bar_def
    by (auto simp: run_simps period_shares_Inr Let_def split: if_splits)
qed

theorem plot_choice_shares_flag_witness:
  "fst (plot_choice_shares 0 True demo_world) = Inr () \<and>
   (\<exists>t. fst (period_shares 0 ''Choice'' demo_world) = Inr t \<and>
     snd (plot_choice_shares 0 True demo_world) =
     demo_world\<lparr>trace := trace demo_world @
       [Subplots 1 1 [],
        Plot_bar t
          [(''stacked'', ABool True), (''ax'', AAxis 0),
           (''color'', AStrs [''C0'', ''C2'', ''C1''])],
        Pyplot_call ''xticks'' [] [(''rotation'', AStr ''horizontal'')],
        Pyplot_call ''legend'' []
          [(''loc'', AStr ''lower center''), (''bbox_to_anchor'', APair (1 / 2) (- 275 / 1000)),
           (''ncol'', AInt 3)],
        Pyplot_call ''show'' [] [],
        Pyplot_call ''close'' [] []]\<rparr>)"
  using plot_choice_shares_flag [of 0 True demo_world] demo_world_shares_run(1) by simp

section \<open>The legend of \<^verbatim>\<open>plot_choices_kw\<close>\<close>










section \<open>The models of \<^verbatim>\<open>plot_choices_kw\<close>\<close>

text \<open>The calls that create subplots, load a file or draw a frame.\<close>

fun shows_model :: "event \<Rightarrow> bool" where
  "shows_model (Subplots _ _ _) = True"
| "shows_model (Read_pickle _) = True"
| "shows_model (Plot_frame _ _) = True"
| "shows_model _ = False"

text \<open>
  What a round of the loop records for a model whose frame \<open>df\<close> loads (lines 105 to
  116): the read of its file, the area plot on subplot \<open>i\<close> titled with the model's
  name, and the white lines over it.
\<close>

definition model_events :: "nat \<times> string \<Rightarrow> dataframe \<Rightarrow> event list" where
  "model_events im df =
     [Read_pickle (''data/choices_'' @ snd im @ ''.pkl''),
      Plot_frame df
        [(''alpha'', ANum (8 / 10)), (''stacked'', ABool True), (''ax'', AAxis (fst im)),
         (''legend'', ABool False), (''kind'', AStr ''area''), (''rot'', AInt 0),
         (''title'', AStr (''Example model: '' @ snd im)), (''linewidth'', AInt 0)],
      Plot_frame df
        [(''stacked'', ABool True), (''ax'', AAxis (fst im)), (''legend'', ABool False),
         (''color'', AStr ''white''), (''linewidth'', AInt 1), (''rot'', AInt 0)]]"

lemma round_shows:
  assumes "plot_choices_kw_body (Some n) (i, model) w = (Inr (), w')"
  shows "\<exists>df. files w (pkl_path model) = Some df \<and> files w' = files w \<and>
     (\<exists>evs. trace w' = trace w @ evs \<and> filter shows_model evs = model_events (i, model) df)"
  using assms
  unfolding plot_choices_kw_body_def lib_defs local_var_def model_events_def
  by (auto simp: run_simps Let_def pkl_path_def split: if_splits prod.splits)

lemma kw_world_files:
  "files kw_world ''data/choices_kw_94_one.pkl'' = Some (shares_frame [''a'', ''b'', ''home''])"
  "files kw_world ''data/choices_kw_94_two.pkl'' = Some (shares_frame [''a'', ''b'', ''home''])"
  "files kw_world ''data/choices_kw_94_three.pkl'' = Some (shares_frame [''a'', ''b'', ''home''])"
  by (simp_all add: kw_world_def)

text \<open>
  Claim C3. A call of \<^verbatim>\<open>plot_choices_kw\<close> that returns was made with "1994" or "1997".
  With "1994" it creates 1 x 3 subplots and loads and draws exactly the models
  \<^verbatim>\<open>kw_94_one\<close>, \<^verbatim>\<open>kw_94_two\<close>, \<^verbatim>\<open>kw_94_three\<close>, in this order, on subplots 0, 1, 2; with
  "1997" it creates 1 x 2 subplots and loads and draws exactly \<^verbatim>\<open>kw_97_basic\<close> and
  \<^verbatim>\<open>kw_97_extended\<close> on subplots 0 and 1.
\<close>

theorem model_selection:
  assumes "fst (plot_choices_kw example w) = Inr ()"
  shows "(example = ''1994'' \<and>
      (\<exists>d1 d2 d3. files w ''data/choices_kw_94_one.pkl'' = Some d1 \<and>
         files w ''data/choices_kw_94_two.pkl'' = Some d2 \<and>
         files w ''data/choices_kw_94_three.pkl'' = Some d3 \<and>
         filter shows_model (drop (length (trace w)) (trace (snd (plot_choices_kw example w)))) =
           Subplots 1 3 [(''figsize'', APair 15 5)] #
           model_events (0, ''kw_94_one'') d1 @ model_events (1, ''kw_94_two'') d2 @
           model_events (2, ''kw_94_three'') d3)) \<or>
     (example = ''1997'' \<and>
      (\<exists>d1 d2. files w ''data/choices_kw_97_basic.pkl'' = Some d1 \<and>
         files w ''data/choices_kw_97_extended.pkl'' = Some d2 \<and>
         filter shows_model (drop (length (trace w)) (trace (snd (plot_choices_kw example w)))) =
           Subplots 1 2 [(''figsize'', APair 15 5)] #
           model_events (0, ''kw_97_basic'') d1 @ model_events (1, ''kw_97_extended'') d2))"
proof -
  let ?run = "plot_choices_kw example w"
  from assms have run: "?run = (Inr (), snd ?run)"
    by (simp add: returned_iff)
  consider "example = ''1994''" | "example = ''1997''"
    | "example \<noteq> ''1994''" "example \<noteq> ''1997''"
    by blast
  then show ?thesis
  proof cases
    case 1
    from run obtain w0 w1 w2 w3 ax where
      s: "subplots 1 3 [(''figsize'', APair 15 5)] w = (Inr ax, w0)"
      and r1: "plot_choices_kw_body (Some ax) (0, ''kw_94_one'') w0 = (Inr (), w1)"
      and r2: "plot_choices_kw_body (Some ax) (1, ''kw_94_two'') w1 = (Inr (), w2)"
      and r3: "plot_choices_kw_body (Some ax) (2, ''kw_94_three'') w2 = (Inr (), w3)"
      and e: "emit (Pyplot_call ''show'' [] []) w3 = (Inr (), snd ?run)"
      unfolding 1 plot_choices_kw_1994 by (auto simp: pybind_Inr ret_Inr)
    from s have w0: "w0 = w\<lparr>trace := trace w @ [Subplots 1 3 [(''figsize'', APair 15 5)]]\<rparr>"
      by (auto simp: subplots_def run_simps)
    from round_shows [OF r1] round_shows [OF r2] round_shows [OF r3] e w0
    show ?thesis
      unfolding 1 by (auto simp: run_simps pkl_path_def)
  next
    case 2
    from run obtain w0 w1 w2 ax where
      s: "subplots 1 2 [(''figsize'', APair 15 5)] w = (Inr ax, w0)"
      and r1: "plot_choices_kw_body (Some ax) (0, ''kw_97_basic'') w0 = (Inr (), w1)"
      and r2: "plot_choices_kw_body (Some ax) (1, ''kw_97_extended'') w1 = (Inr (), w2)"
      and e: "emit (Pyplot_call ''show'' [] []) w2 = (Inr (), snd ?run)"
      unfolding 2 plot_choices_kw_1997 by (auto simp: pybind_Inr ret_Inr)
    from s have w0: "w0 = w\<lparr>trace := trace w @ [Subplots 1 2 [(''figsize'', APair 15 5)]]\<rparr>"
      by (auto simp: subplots_def run_simps)
    from round_shows [OF r1] round_shows [OF r2] e w0
    show ?thesis
      unfolding 2 by (auto simp: run_simps pkl_path_def)
  next
    case 3
    then have "?run = (Inl (UnboundLocalError ''models''), w)"
      by (simp add: plot_choices_kw_def pybind_def ret_def local_var_def interp_raise_def)
    with assms show ?thesis by simp
  qed
qed

theorem model_selection_witness:
  "fst (plot_choices_kw ''1994'' kw_world) = Inr () \<and>
   filter shows_model (trace (snd (plot_choices_kw ''1994'' kw_world))) =
     Subplots 1 3 [(''figsize'', APair 15 5)] #
     model_events (0, ''kw_94_one'') (shares_frame [''a'', ''b'', ''home'']) @
     model_events (1, ''kw_94_two'') (shares_frame [''a'', ''b'', ''home'']) @
     model_events (2, ''kw_94_three'') (shares_frame [''a'', ''b'', ''home''])"
  using model_selection [of "''1994''" kw_world] kw_world_runs(1)
  by (auto simp: trace_kw_world kw_world_files)

end
